theory Spec2Isabelle
  imports Main
begin

section \<open>Go library functions used by the checks\<close>

text \<open>
  A Go string is a byte sequence: \<^typ>\<open>string\<close>.  The remote commands of both packages
  (\<^verbatim>\<open>nproc\<close>, \<^verbatim>\<open>/proc/meminfo\<close>, \<^verbatim>\<open>df\<close>, \<^verbatim>\<open>ping\<close>, \<^verbatim>\<open>systemctl\<close>, \<^verbatim>\<open>kubectl\<close>)
  print ASCII, and white space is modelled as Go's ASCII white space (tab, line feed,
  vertical tab, form feed, carriage return, space); the multi-byte Unicode spaces that
  \<^verbatim>\<open>strings.TrimSpace\<close> and \<^verbatim>\<open>strings.Fields\<close> also recognise are not modelled.
  An \<^verbatim>\<open>error\<close> is modelled by its message.
\<close>

type_synonym error = string

definition isSpace :: "char \<Rightarrow> bool" where
  "isSpace c = (c \<in> set [CHR 0x09, CHR 0x0A, CHR 0x0B, CHR 0x0C, CHR 0x0D, CHR 0x20])"

definition isDigit :: "char \<Rightarrow> bool" where
  "isDigit c = (c \<in> set ''0123456789'')"

text \<open>\<^verbatim>\<open>strings.HasPrefix(s, prefix)\<close>\<close>

fun HasPrefix :: "string \<Rightarrow> string \<Rightarrow> bool" where
  "HasPrefix s [] = True"
| "HasPrefix [] (p # ps) = False"
| "HasPrefix (c # cs) (p # ps) = (c = p \<and> HasPrefix cs ps)"

text \<open>\<^verbatim>\<open>strings.Contains(s, substr)\<close>: \<open>substr\<close> starts at some position of \<open>s\<close>.\<close>

fun Contains :: "string \<Rightarrow> string \<Rightarrow> bool" where
  "Contains [] sub = (sub = [])"
| "Contains (c # cs) sub = (HasPrefix (c # cs) sub \<or> Contains cs sub)"

text \<open>\<^verbatim>\<open>strings.TrimSpace(s)\<close>: leading and trailing white space removed.\<close>

definition TrimSpace :: "string \<Rightarrow> string" where
  "TrimSpace s = rev (dropWhile isSpace (rev (dropWhile isSpace s)))"

text \<open>\<^verbatim>\<open>strings.TrimSuffix(s, suffix)\<close>\<close>

definition TrimSuffix :: "string \<Rightarrow> string \<Rightarrow> string" where
  "TrimSuffix s suffix =
     (if HasPrefix (rev s) (rev suffix) then take (length s - length suffix) s else s)"

text \<open>
  \<^verbatim>\<open>strings.Split(s, "\n")\<close>, for the one-byte separator the source uses: the pieces
  between the separators, empty pieces included; the empty string gives one empty piece.
\<close>

fun splitByte :: "char \<Rightarrow> string \<Rightarrow> string list" where
  "splitByte sep [] = [[]]"
| "splitByte sep (c # cs) =
     (if c = sep then [] # splitByte sep cs
      else (case splitByte sep cs of
              [] \<Rightarrow> [[c]]
            | piece # pieces \<Rightarrow> (c # piece) # pieces))"

text \<open>
  \<^verbatim>\<open>strings.Fields(s)\<close>: the maximal runs of non-space bytes, in order.  \<open>cur\<close> is the
  field being read.
\<close>

fun fieldsFrom :: "string \<Rightarrow> string \<Rightarrow> string list" where
  "fieldsFrom cur [] = (if cur = [] then [] else [cur])"
| "fieldsFrom cur (c # cs) =
     (if isSpace c then (if cur = [] then fieldsFrom [] cs else cur # fieldsFrom [] cs)
      else fieldsFrom (cur @ [c]) cs)"

definition Fields :: "string \<Rightarrow> string list" where
  "Fields s = fieldsFrom [] s"

text \<open>\<^verbatim>\<open>strings.Join(elems, sep)\<close>\<close>

fun Join :: "string list \<Rightarrow> string \<Rightarrow> string" where
  "Join [] sep = []"
| "Join [e] sep = e"
| "Join (e # e' # es) sep = e @ sep @ Join (e' # es) sep"

text \<open>
  \<^verbatim>\<open>strconv.Atoi\<close> on a 64-bit platform: an optional sign and decimal digits.  The
  result is the value and whether an error was returned.  The digits are read from the
  left into an unsigned 64-bit number: a byte that is not a digit is a syntax error, with
  value 0; once the number passes the largest unsigned value the reading stops, before the
  bytes that follow, and the result is the bound of \<^verbatim>\<open>int\<close> on the side of the sign, as
  it is for a number that fits 64 bits and not \<^verbatim>\<open>int\<close>.  Every call in the source drops
  the error and keeps the value.
\<close>

definition digitVal :: "char \<Rightarrow> int" where
  "digitVal c = int (of_char c) - 48"

definition maxUint :: int where
  "maxUint = 2 ^ 64 - 1"

definition maxInt :: int where
  "maxInt = 2 ^ 63 - 1"

definition minInt :: int where
  "minInt = - (2 ^ 63)"

text \<open>
  The loop of \<^verbatim>\<open>ParseUint\<close>: \<open>None\<close> is the syntax error, \<open>Some (n, True)\<close> the overflow,
  \<open>Some (n, False)\<close> the number read.
\<close>

fun scanDigits :: "string \<Rightarrow> int \<Rightarrow> (int \<times> bool) option" where
  "scanDigits [] n = Some (n, False)"
| "scanDigits (c # cs) n =
     (if \<not> isDigit c then None
      else if n * 10 + digitVal c > maxUint then Some (maxUint, True)
      else scanDigits cs (n * 10 + digitVal c))"

definition Atoi :: "string \<Rightarrow> int \<times> bool" where
  "Atoi s =
     (let neg = HasPrefix s ''-'';
          ds = (if HasPrefix s ''-'' \<or> HasPrefix s ''+'' then tl s else s)
      in if ds = [] then (0, True)
         else (case scanDigits ds 0 of
                 None \<Rightarrow> (0, True)
               | Some (un, overflow) \<Rightarrow>
                   if \<not> neg \<and> un \<ge> 2 ^ 63 then (maxInt, True)
                   else if neg \<and> un > 2 ^ 63 then (minInt, True)
                   else (if neg then - un else un, False)))"

text \<open>\<^verbatim>\<open>%d\<close> of \<^verbatim>\<open>fmt.Sprintf\<close>: the decimal digits, with a minus sign below zero.\<close>

fun digits :: "nat \<Rightarrow> string" where
  "digits n =
     (if n < 10 then [''0123456789'' ! n]
      else digits (n div 10) @ [''0123456789'' ! (n mod 10)])"

declare digits.simps [simp del]

definition fmtInt :: "int \<Rightarrow> string" where
  "fmtInt i = (if i < 0 then CHR ''-'' # digits (nat (- i)) else digits (nat i))"

text \<open>Go's integer division truncates towards zero.\<close>

definition quot :: "int \<Rightarrow> int \<Rightarrow> int" where
  "quot a b = sgn a * sgn b * (\<bar>a\<bar> div \<bar>b\<bar>)"

section \<open>The remote hosts\<close>

text \<open>
  Connecting to a host and running a command on it are the only effects of the checks.
  They are taken from an environment that threads a state \<open>'w\<close> of the outside world,
  so that two calls with the same arguments may answer differently.  \<open>connect\<close> stands
  for \<^verbatim>\<open>sshConnect\<close> (reading and parsing the key, then dialling) with the credentials
  of the caller; \<open>run\<close> for \<^verbatim>\<open>runSSHCommand\<close> and \<^verbatim>\<open>runCommand\<close>, which return the
  combined output and an error; \<open>clock\<close> for \<^verbatim>\<open>time.Now\<close>.  The deferred
  \<^verbatim>\<open>client.Close()\<close> calls run when a check returns and do not touch its results; they
  are left out.
\<close>

datatype client = Client string

record 'w env =
  connect :: "string \<Rightarrow> string \<Rightarrow> int \<Rightarrow> string \<Rightarrow> 'w \<Rightarrow> (error + client) \<times> 'w"
  run :: "client \<Rightarrow> string \<Rightarrow> 'w \<Rightarrow> (string \<times> error option) \<times> 'w"
  clock :: "'w \<Rightarrow> nat"

section \<open>Package preflight\<close>

datatype detail = DInt int | DStrings "string list"

record CheckResult =
  Name :: string
  Passed :: bool
  Message :: string
  Details :: "string \<rightharpoonup> detail"

record Checker =
  hosts :: "string list"
  sshUser :: string
  sshKeyPath :: string
  sshPort :: int
  timeout :: nat

definition NewChecker :: "string list \<Rightarrow> string \<Rightarrow> string \<Rightarrow> int \<Rightarrow> Checker" where
  "NewChecker hs user keyPath port =
     \<lparr>hosts = hs, sshUser = user, sshKeyPath = keyPath, sshPort = port, timeout = 30\<rparr>"

definition sshConnect :: "'w env \<Rightarrow> Checker \<Rightarrow> string \<Rightarrow> 'w \<Rightarrow> (error + client) \<times> 'w" where
  "sshConnect e c host w = connect e (sshUser c) (sshKeyPath c) (sshPort c) host w"

definition runSSHCommand :: "'w env \<Rightarrow> client \<Rightarrow> string \<Rightarrow> 'w \<Rightarrow> (string \<times> error option) \<times> 'w" where
  "runSSHCommand e cl command w = run e cl command w"

text \<open>A result as the struct literals of the source leave it: not passed, no message.\<close>

definition newResult :: "string \<Rightarrow> CheckResult" where
  "newResult n = \<lparr>Name = n, Passed = False, Message = [], Details = Map.empty\<rparr>"

subsection \<open>CheckNetworkConnectivity\<close>

text \<open>
  The body of the inner loop for one pair that passed the test \<^verbatim>\<open>i >= j\<close>: the result
  appended for source \<open>srcHost\<close> and destination \<open>dstHost\<close>.
\<close>

definition checkPair :: "'w env \<Rightarrow> Checker \<Rightarrow> string \<Rightarrow> string \<Rightarrow> 'w \<Rightarrow> CheckResult \<times> 'w" where
  "checkPair e c srcHost dstHost w =
     (let result = newResult (''Network Connectivity - '' @ srcHost @ '' to '' @ dstHost)
      in case sshConnect e c srcHost w of
           (Inl err, w1) \<Rightarrow>
             (result\<lparr>Passed := False, Message := ''Cannot connect to source: '' @ err\<rparr>, w1)
         | (Inr cl, w1) \<Rightarrow>
             (case runSSHCommand e cl (''ping -c 3 -W 2 '' @ dstHost) w1 of
                ((output, err), w2) \<Rightarrow>
                  if err \<noteq> None \<or> \<not> Contains output ''3 received''
                  then (result\<lparr>Passed := False, Message := ''Ping failed between nodes''\<rparr>, w2)
                  else (result\<lparr>Passed := True, Message := ''Network connectivity verified''\<rparr>, w2)))"

text \<open>
  The inner loop \<^verbatim>\<open>for j, dstHost := range c.hosts\<close> over the indexed hosts still to
  visit, and the outer loop \<^verbatim>\<open>for i, srcHost := range c.hosts\<close>; \<open>results\<close> is the slice
  appended to.
\<close>

fun netInner ::
  "'w env \<Rightarrow> Checker \<Rightarrow> nat \<Rightarrow> string \<Rightarrow> (nat \<times> string) list \<Rightarrow> CheckResult list \<Rightarrow> 'w
    \<Rightarrow> CheckResult list \<times> 'w" where
  "netInner e c i srcHost [] results w = (results, w)"
| "netInner e c i srcHost ((j, dstHost) # rest) results w =
     (if i \<ge> j then netInner e c i srcHost rest results w
      else (case checkPair e c srcHost dstHost w of
              (result, w') \<Rightarrow> netInner e c i srcHost rest (results @ [result]) w'))"

fun netOuter ::
  "'w env \<Rightarrow> Checker \<Rightarrow> (nat \<times> string) list \<Rightarrow> CheckResult list \<Rightarrow> 'w
    \<Rightarrow> CheckResult list \<times> 'w" where
  "netOuter e c [] results w = (results, w)"
| "netOuter e c ((i, srcHost) # rest) results w =
     (case netInner e c i srcHost (enumerate 0 (hosts c)) results w of
        (results', w') \<Rightarrow> netOuter e c rest results' w')"

definition CheckNetworkConnectivity :: "'w env \<Rightarrow> Checker \<Rightarrow> 'w \<Rightarrow> CheckResult list \<times> 'w" where
  "CheckNetworkConnectivity e c w =
     (if length (hosts c) < 2 then ([], w)
      else netOuter e c (enumerate 0 (hosts c)) [] w)"

subsection \<open>CheckSSHConnectivity\<close>

fun sshLoop ::
  "'w env \<Rightarrow> Checker \<Rightarrow> string list \<Rightarrow> CheckResult list \<Rightarrow> 'w \<Rightarrow> CheckResult list \<times> 'w" where
  "sshLoop e c [] results w = (results, w)"
| "sshLoop e c (host # rest) results w =
     (let result = newResult (''SSH Connectivity - '' @ host)
      in case sshConnect e c host w of
           (Inl err, w') \<Rightarrow>
             sshLoop e c rest
               (results @ [result\<lparr>Passed := False, Message := ''Failed to connect: '' @ err\<rparr>]) w'
         | (Inr cl, w') \<Rightarrow>
             sshLoop e c rest
               (results @ [result\<lparr>Passed := True, Message := ''SSH connection successful''\<rparr>]) w')"

definition CheckSSHConnectivity :: "'w env \<Rightarrow> Checker \<Rightarrow> 'w \<Rightarrow> CheckResult list \<times> 'w" where
  "CheckSSHConnectivity e c w = sshLoop e c (hosts c) [] w"

subsection \<open>CheckSystemRequirements\<close>

definition minCPU :: int where "minCPU = 2"
definition minMemoryGB :: int where "minMemoryGB = 2"
definition minDiskGB :: int where "minDiskGB = 20"

definition memCommand :: string where
  "memCommand = ''cat /proc/meminfo | grep MemTotal''"

definition diskCommand :: string where
  "diskCommand = ''df -BG / | tail -1 | awk '{print $4}'' @ [CHR 0x27]"

text \<open>
  \<^verbatim>\<open>regexp.MustCompile(`MemTotal:\s+(\d+)\s+kB`).FindStringSubmatch\<close>: the leftmost
  match, and of it the digits of the group.  \<^verbatim>\<open>\s\<close> is tab, line feed, form feed,
  carriage return or space, \<^verbatim>\<open>\d\<close> an ASCII digit.  At a given start the match is
  forced: a run of \<^verbatim>\<open>\s\<close> must be followed by a digit, a run of digits by a \<^verbatim>\<open>\s\<close>, and
  the last run of \<^verbatim>\<open>\s\<close> by \<^verbatim>\<open>k\<close>, so each run is taken whole.  \<open>None\<close> stands for a
  result of length 0, where the source's test \<^verbatim>\<open>len(matches) > 1\<close> fails.
\<close>

definition reSpace :: "char \<Rightarrow> bool" where
  "reSpace c = (c \<in> set [CHR 0x09, CHR 0x0A, CHR 0x0C, CHR 0x0D, CHR 0x20])"

definition matchMemTotalAt :: "string \<Rightarrow> string option" where
  "matchMemTotalAt s =
     (if HasPrefix s ''MemTotal:'' then
        (let r1 = drop (length ''MemTotal:'') s;
             r2 = dropWhile reSpace r1;
             ds = takeWhile isDigit r2;
             r3 = dropWhile isDigit r2;
             r4 = dropWhile reSpace r3
         in if takeWhile reSpace r1 \<noteq> [] \<and> ds \<noteq> [] \<and> takeWhile reSpace r3 \<noteq> [] \<and> HasPrefix r4 ''kB''
            then Some ds else None)
      else None)"

fun findMemTotal :: "string \<Rightarrow> string option" where
  "findMemTotal [] = None"
| "findMemTotal (c # cs) =
     (case matchMemTotalAt (c # cs) of
        Some ds \<Rightarrow> Some ds
      | None \<Rightarrow> findMemTotal cs)"

text \<open>
  The three measurements of the loop body.  Each gives \<open>Inl\<close> of the failing result the
  source appends before its \<^verbatim>\<open>continue\<close>, or \<open>Inr\<close> of the result to carry on with.  A
  command that returns an error is skipped, and so is a memory output without the
  pattern.
\<close>

definition checkCPU ::
  "'w env \<Rightarrow> client \<Rightarrow> CheckResult \<Rightarrow> 'w \<Rightarrow> (CheckResult + CheckResult) \<times> 'w" where
  "checkCPU e cl result w =
     (case runSSHCommand e cl ''nproc'' w of
        ((cpuCount, err), w') \<Rightarrow>
          if err = None then
            (let cpu = fst (Atoi (TrimSpace cpuCount));
                 result' = result\<lparr>Details := (Details result)(''cpu_cores'' \<mapsto> DInt cpu)\<rparr>
             in if cpu < minCPU
                then (Inl (result'\<lparr>Passed := False,
                        Message := ''Insufficient CPU cores: '' @ fmtInt cpu @
                          '' (minimum: '' @ fmtInt minCPU @ '')''\<rparr>), w')
                else (Inr result', w'))
          else (Inr result, w'))"

definition checkMemory ::
  "'w env \<Rightarrow> client \<Rightarrow> CheckResult \<Rightarrow> 'w \<Rightarrow> (CheckResult + CheckResult) \<times> 'w" where
  "checkMemory e cl result w =
     (case runSSHCommand e cl memCommand w of
        ((memInfo, err), w') \<Rightarrow>
          if err = None then
            (case findMemTotal memInfo of
               Some ds \<Rightarrow>
                 (let memKB = fst (Atoi ds);
                      memGB = quot (quot memKB 1024) 1024;
                      result' = result\<lparr>Details := (Details result)(''memory_gb'' \<mapsto> DInt memGB)\<rparr>
                  in if memGB < minMemoryGB
                     then (Inl (result'\<lparr>Passed := False,
                             Message := ''Insufficient memory: '' @ fmtInt memGB @
                               ''GB (minimum: '' @ fmtInt minMemoryGB @ ''GB)''\<rparr>), w')
                     else (Inr result', w'))
             | None \<Rightarrow> (Inr result, w'))
          else (Inr result, w'))"

definition checkDisk ::
  "'w env \<Rightarrow> client \<Rightarrow> CheckResult \<Rightarrow> 'w \<Rightarrow> (CheckResult + CheckResult) \<times> 'w" where
  "checkDisk e cl result w =
     (case runSSHCommand e cl diskCommand w of
        ((diskInfo, err), w') \<Rightarrow>
          if err = None then
            (let diskStr = TrimSpace (TrimSuffix diskInfo ''G'');
                 diskGB = fst (Atoi diskStr);
                 result' = result\<lparr>Details := (Details result)(''disk_available_gb'' \<mapsto> DInt diskGB)\<rparr>
             in if diskGB < minDiskGB
                then (Inl (result'\<lparr>Passed := False,
                        Message := ''Insufficient disk space: '' @ fmtInt diskGB @
                          ''GB (minimum: '' @ fmtInt minDiskGB @ ''GB)''\<rparr>), w')
                else (Inr result', w'))
          else (Inr result, w'))"

text \<open>The loop body for one host: the one result it appends.\<close>

definition hostRequirements :: "'w env \<Rightarrow> Checker \<Rightarrow> string \<Rightarrow> 'w \<Rightarrow> CheckResult \<times> 'w" where
  "hostRequirements e c host w =
     (let result = newResult (''System Requirements - '' @ host)
      in case sshConnect e c host w of
           (Inl err, w0) \<Rightarrow>
             (result\<lparr>Passed := False, Message := ''Cannot connect: '' @ err\<rparr>, w0)
         | (Inr cl, w0) \<Rightarrow>
             (case checkCPU e cl result w0 of
                (Inl failed, w1) \<Rightarrow> (failed, w1)
              | (Inr result1, w1) \<Rightarrow>
                  (case checkMemory e cl result1 w1 of
                     (Inl failed, w2) \<Rightarrow> (failed, w2)
                   | (Inr result2, w2) \<Rightarrow>
                       (case checkDisk e cl result2 w2 of
                          (Inl failed, w3) \<Rightarrow> (failed, w3)
                        | (Inr result3, w3) \<Rightarrow>
                            (result3\<lparr>Passed := True, Message := ''System requirements met''\<rparr>,
                             w3)))))"

fun reqLoop ::
  "'w env \<Rightarrow> Checker \<Rightarrow> string list \<Rightarrow> CheckResult list \<Rightarrow> 'w \<Rightarrow> CheckResult list \<times> 'w" where
  "reqLoop e c [] results w = (results, w)"
| "reqLoop e c (host # rest) results w =
     (case hostRequirements e c host w of
        (result, w') \<Rightarrow> reqLoop e c rest (results @ [result]) w')"

definition CheckSystemRequirements :: "'w env \<Rightarrow> Checker \<Rightarrow> 'w \<Rightarrow> CheckResult list \<times> 'w" where
  "CheckSystemRequirements e c w = reqLoop e c (hosts c) [] w"

subsection \<open>CheckKubernetesVersion and RunAll\<close>

definition supportedVersions :: "string list" where
  "supportedVersions = [''v1.28'', ''v1.29'', ''v1.30'']"

text \<open>The method reads no field of its receiver and takes no argument.\<close>

definition CheckKubernetesVersion :: "Checker \<Rightarrow> CheckResult" where
  "CheckKubernetesVersion c =
     (let result = newResult ''Kubernetes Version Compatibility'';
          result = result\<lparr>Details := (Details result)(''supported_versions'' \<mapsto> DStrings supportedVersions)\<rparr>
      in result\<lparr>Passed := True,
                Message := ''Supported versions: '' @ Join supportedVersions '', ''\<rparr>)"

definition RunAll :: "'w env \<Rightarrow> Checker \<Rightarrow> 'w \<Rightarrow> CheckResult list \<times> 'w" where
  "RunAll e c w =
     (case CheckSSHConnectivity e c w of
        (sshResult, w1) \<Rightarrow>
          (case CheckSystemRequirements e c w1 of
             (reqResult, w2) \<Rightarrow>
               (case CheckNetworkConnectivity e c w2 of
                  (netResult, w3) \<Rightarrow>
                    (sshResult @ reqResult @ netResult @ [CheckKubernetesVersion c], w3))))"

section \<open>Package health\<close>

text \<open>
  The fields of \<^verbatim>\<open>ComponentStatus\<close> and of \<^verbatim>\<open>Monitor\<close> carry a prefix where their name
  is a field of package preflight already; \<open>Healthy\<close> is the field of
  \<^verbatim>\<open>ComponentStatus\<close>, and \<open>overallHealthy\<close> is the field \<^verbatim>\<open>Healthy\<close> of
  \<^verbatim>\<open>ClusterHealth\<close>.  The counts are lengths and numbers of elements of slices, far
  below the bound of \<^verbatim>\<open>int\<close>, and are natural numbers here.
\<close>

record ComponentStatus =
  compName :: string
  Healthy :: bool
  compMessage :: string
  compDetails :: "string \<rightharpoonup> detail"

record ClusterHealth =
  Timestamp :: nat
  overallHealthy :: bool
  Components :: "ComponentStatus list"
  NodeCount :: nat
  ReadyNodes :: nat

record Monitor =
  masters :: "string list"
  nodes :: "string list"
  monUser :: string
  monKeyPath :: string
  monPort :: int

definition NewMonitor :: "string list \<Rightarrow> string list \<Rightarrow> string \<Rightarrow> string \<Rightarrow> int \<Rightarrow> Monitor" where
  "NewMonitor ms ns user keyPath port =
     \<lparr>masters = ms, nodes = ns, monUser = user, monKeyPath = keyPath, monPort = port\<rparr>"

text \<open>
  In the source the monitor's \<^verbatim>\<open>sshConnect\<close> is a placeholder that returns the error
  \<^verbatim>\<open>SSH connection not implemented in this stub\<close> for every host, with the comment that
  it would use the same logic as the preflight checker's.  The checks below take the
  connection from the environment, so that what is proved of them for every environment
  holds for the placeholder and for the connection it stands for.  \<open>withStub e\<close> is the
  environment with the placeholder: the monitor of the source is the checks run in
  \<open>withStub e\<close>, and what the monitor returns is stated there.
\<close>

definition monitorConnect :: "'w env \<Rightarrow> Monitor \<Rightarrow> string \<Rightarrow> 'w \<Rightarrow> (error + client) \<times> 'w" where
  "monitorConnect e m host w = connect e (monUser m) (monKeyPath m) (monPort m) host w"

definition withStub :: "'w env \<Rightarrow> 'w env" where
  "withStub e =
     e\<lparr>connect := (\<lambda>user keyPath port host w.
          (Inl ''SSH connection not implemented in this stub'', w))\<rparr>"

definition runCommand :: "'w env \<Rightarrow> client \<Rightarrow> string \<Rightarrow> 'w \<Rightarrow> (string \<times> error option) \<times> 'w" where
  "runCommand e cl command w = run e cl command w"

definition newStatus :: "string \<Rightarrow> ComponentStatus" where
  "newStatus n = \<lparr>compName = n, Healthy = False, compMessage = [], compDetails = Map.empty\<rparr>"

subsection \<open>checkAPIServer and checkEtcd\<close>

definition apiCommand :: string where
  "apiCommand = ''sudo systemctl is-active kube-apiserver || kubectl get --raw /healthz''"

definition checkAPIServer :: "'w env \<Rightarrow> Monitor \<Rightarrow> 'w \<Rightarrow> ComponentStatus \<times> 'w" where
  "checkAPIServer e m w =
     (let status = newStatus ''Kubernetes API Server''
      in case masters m of
           [] \<Rightarrow> (status\<lparr>Healthy := False, compMessage := ''No master nodes configured''\<rparr>, w)
         | masterHost # others \<Rightarrow>
             (case monitorConnect e m masterHost w of
                (Inl err, w1) \<Rightarrow>
                  (status\<lparr>Healthy := False,
                          compMessage := ''Cannot connect to master: '' @ err\<rparr>, w1)
              | (Inr cl, w1) \<Rightarrow>
                  (case runCommand e cl apiCommand w1 of
                     ((output, err), w2) \<Rightarrow>
                       if err \<noteq> None then
                         (status\<lparr>Healthy := False, compMessage := ''API server is not responding''\<rparr>, w2)
                       else if Contains output ''ok'' \<or> Contains output ''active'' then
                         (status\<lparr>Healthy := True, compMessage := ''API server is healthy''\<rparr>, w2)
                       else
                         (status\<lparr>Healthy := False, compMessage := ''API server status unknown''\<rparr>, w2))))"

definition etcdCommand :: string where
  "etcdCommand =
     ''sudo ETCDCTL_API=3 etcdctl endpoint health 2>/dev/null || echo 'etcd-check-skipped'' @ [CHR 0x27]"

definition checkEtcd :: "'w env \<Rightarrow> Monitor \<Rightarrow> 'w \<Rightarrow> ComponentStatus \<times> 'w" where
  "checkEtcd e m w =
     (let status = newStatus ''etcd''
      in case masters m of
           [] \<Rightarrow> (status\<lparr>Healthy := False, compMessage := ''No etcd nodes configured''\<rparr>, w)
         | masterHost # others \<Rightarrow>
             (case monitorConnect e m masterHost w of
                (Inl err, w1) \<Rightarrow>
                  (status\<lparr>Healthy := False,
                          compMessage := ''Cannot connect to etcd node: '' @ err\<rparr>, w1)
              | (Inr cl, w1) \<Rightarrow>
                  (case runCommand e cl etcdCommand w1 of
                     ((output, err), w2) \<Rightarrow>
                       if err \<noteq> None \<or> Contains output ''unhealthy'' then
                         (status\<lparr>Healthy := False, compMessage := ''etcd cluster is unhealthy''\<rparr>, w2)
                       else if Contains output ''healthy'' then
                         (status\<lparr>Healthy := True, compMessage := ''etcd cluster is healthy''\<rparr>, w2)
                       else
                         (status\<lparr>Healthy := True,
                                 compMessage := ''etcd status check skipped (may not be running on this node)''\<rparr>,
                          w2))))"

subsection \<open>checkKubelet\<close>

text \<open>The loop body for one host: the one status it appends.\<close>

definition kubeletStatus :: "'w env \<Rightarrow> Monitor \<Rightarrow> string \<Rightarrow> 'w \<Rightarrow> ComponentStatus \<times> 'w" where
  "kubeletStatus e m host w =
     (let status = newStatus (''kubelet - '' @ host)
      in case monitorConnect e m host w of
           (Inl err, w1) \<Rightarrow>
             (status\<lparr>Healthy := False, compMessage := ''Cannot connect: '' @ err\<rparr>, w1)
         | (Inr cl, w1) \<Rightarrow>
             (case runCommand e cl ''sudo systemctl is-active kubelet'' w1 of
                ((output, err), w2) \<Rightarrow>
                  if err \<noteq> None \<or> \<not> Contains output ''active''
                  then (status\<lparr>Healthy := False, compMessage := ''kubelet is not running''\<rparr>, w2)
                  else (status\<lparr>Healthy := True, compMessage := ''kubelet is running''\<rparr>, w2)))"

fun kubeletLoop ::
  "'w env \<Rightarrow> Monitor \<Rightarrow> string list \<Rightarrow> ComponentStatus list \<Rightarrow> 'w \<Rightarrow> ComponentStatus list \<times> 'w" where
  "kubeletLoop e m [] statuses w = (statuses, w)"
| "kubeletLoop e m (host # rest) statuses w =
     (case kubeletStatus e m host w of
        (status, w') \<Rightarrow> kubeletLoop e m rest (statuses @ [status]) w')"

definition checkKubelet :: "'w env \<Rightarrow> Monitor \<Rightarrow> 'w \<Rightarrow> ComponentStatus list \<times> 'w" where
  "checkKubelet e m w =
     (let allHosts = masters m @ nodes m
      in kubeletLoop e m allHosts [] w)"

subsection \<open>checkNodeStatus and countReadyNodes\<close>

definition nodesCommand :: string where
  "nodesCommand =
     ''kubectl get nodes --no-headers 2>/dev/null || echo 'kubectl-not-available'' @ [CHR 0x27]"

text \<open>The loop over the lines of the listing; \<open>statuses\<close> is the slice appended to.\<close>

fun nodeLines :: "string list \<Rightarrow> ComponentStatus list \<Rightarrow> ComponentStatus list" where
  "nodeLines [] statuses = statuses"
| "nodeLines (line # rest) statuses =
     (if line = [] then nodeLines rest statuses
      else
        (let fields = Fields line
         in if length fields < 2 then nodeLines rest statuses
            else
              (let nodeName = fields ! 0;
                   nodeStatus = fields ! 1;
                   status = (newStatus (''Node - '' @ nodeName))
                              \<lparr>Healthy := Contains nodeStatus ''Ready''\<rparr>;
                   status = (if Healthy status
                             then status\<lparr>compMessage := ''Node is Ready''\<rparr>
                             else status\<lparr>compMessage := ''Node status: '' @ nodeStatus\<rparr>)
               in nodeLines rest (statuses @ [status]))))"

definition checkNodeStatus :: "'w env \<Rightarrow> Monitor \<Rightarrow> 'w \<Rightarrow> ComponentStatus list \<times> 'w" where
  "checkNodeStatus e m w =
     (case masters m of
        [] \<Rightarrow> ([], w)
      | masterHost # others \<Rightarrow>
          (case monitorConnect e m masterHost w of
             (Inl err, w1) \<Rightarrow>
               ([\<lparr>compName = ''Node Status'', Healthy = False,
                  compMessage = ''Cannot connect to master: '' @ err,
                  compDetails = Map.empty\<rparr>], w1)
           | (Inr cl, w1) \<Rightarrow>
               (case runCommand e cl nodesCommand w1 of
                  ((output, err), w2) \<Rightarrow>
                    if err \<noteq> None \<or> Contains output ''kubectl-not-available'' then
                      ([\<lparr>compName = ''Node Status'', Healthy = True,
                         compMessage = ''kubectl not available - cluster may still be initializing'',
                         compDetails = Map.empty\<rparr>], w2)
                    else
                      (let lines = splitByte CHR 0x0A (TrimSpace output)
                       in (nodeLines lines [], w2)))))"

fun countLoop :: "ComponentStatus list \<Rightarrow> nat \<Rightarrow> nat" where
  "countLoop [] count = count"
| "countLoop (status # rest) count =
     (if HasPrefix (compName status) ''Node - '' \<and> Healthy status
      then countLoop rest (count + 1)
      else countLoop rest count)"

definition countReadyNodes :: "ComponentStatus list \<Rightarrow> nat" where
  "countReadyNodes nodeStatuses = countLoop nodeStatuses 0"

subsection \<open>CheckClusterHealth\<close>

text \<open>
  The loop that determines the overall health: \<open>h\<close> is \<^verbatim>\<open>health.Healthy\<close>, set to
  true before the loop; the first unhealthy component sets it to false and breaks.
\<close>

fun overallLoop :: "ComponentStatus list \<Rightarrow> bool \<Rightarrow> bool" where
  "overallLoop [] h = h"
| "overallLoop (component # rest) h =
     (if \<not> Healthy component then False else overallLoop rest h)"

definition CheckClusterHealth :: "'w env \<Rightarrow> Monitor \<Rightarrow> 'w \<Rightarrow> ClusterHealth \<times> 'w" where
  "CheckClusterHealth e m w =
     (let health = \<lparr>Timestamp = clock e w, overallHealthy = False, Components = [],
                    NodeCount = length (masters m) + length (nodes m), ReadyNodes = 0\<rparr>
      in case checkAPIServer e m w of
           (apiStatus, w1) \<Rightarrow>
             (let health = health\<lparr>Components := Components health @ [apiStatus]\<rparr>
              in case checkEtcd e m w1 of
                   (etcdStatus, w2) \<Rightarrow>
                     (let health = health\<lparr>Components := Components health @ [etcdStatus]\<rparr>
                      in case checkKubelet e m w2 of
                           (kubeletStatuses, w3) \<Rightarrow>
                             (let health = health\<lparr>Components := Components health @ kubeletStatuses\<rparr>
                              in case checkNodeStatus e m w3 of
                                   (nodeStatus, w4) \<Rightarrow>
                                     (let health = health\<lparr>Components := Components health @ nodeStatus\<rparr>;
                                          health = health\<lparr>ReadyNodes := countReadyNodes nodeStatus\<rparr>;
                                          health = health\<lparr>overallHealthy := overallLoop (Components health) True\<rparr>
                                      in (health, w4))))))"

section \<open>Notions of the specification and environments to run the checks in\<close>

text \<open>
  The unordered pairs of roster positions, as pairs \<open>(i, j)\<close> with \<open>i < j\<close>, in roster
  order, and the name of the result for such a pair.
\<close>

definition rosterPairs :: "nat \<Rightarrow> (nat \<times> nat) list" where
  "rosterPairs n = concat (map (\<lambda>i. map (Pair i) [Suc i..<n]) [0..<n])"

definition pairName :: "string list \<Rightarrow> nat \<times> nat \<Rightarrow> string" where
  "pairName hs p = ''Network Connectivity - '' @ hs ! fst p @ '' to '' @ hs ! snd p"

text \<open>
  The comparison the specification describes for the version check: the requested
  version is one of the supported ones.
\<close>

definition specVersionPasses :: "string \<Rightarrow> bool" where
  "specVersionPasses requested = (requested \<in> set supportedVersions)"

text \<open>
  An environment without state: the hosts in \<open>down\<close> refuse the connection, every other
  host accepts it, and every command succeeds with the output \<open>answer\<close> gives for the host
  and the command.
\<close>

definition scriptedEnv :: "string list \<Rightarrow> (string \<Rightarrow> string \<Rightarrow> string) \<Rightarrow> unit env" where
  "scriptedEnv down answer =
     \<lparr>connect = (\<lambda>user keyPath port host w.
         if host \<in> set down then (Inl ''SSH dial failed: connection refused'', w)
         else (Inr (Client host), w)),
      run = (\<lambda>cl command w. case cl of Client host \<Rightarrow> ((answer host command, None), w)),
      clock = (\<lambda>w. 0)\<rparr>"

definition pingAnswers :: "string \<Rightarrow> string \<Rightarrow> string" where
  "pingAnswers host command = ''3 packets transmitted, 3 received, 0% packet loss''"

text \<open>Every host answers the three capacity commands alike.\<close>

definition capacityAnswers :: "string \<Rightarrow> string \<Rightarrow> string \<Rightarrow> string \<Rightarrow> string \<Rightarrow> string" where
  "capacityAnswers cpuOut memOut diskOut host command =
     (if command = ''nproc'' then cpuOut
      else if command = memCommand then memOut
      else if command = diskCommand then diskOut
      else [])"

text \<open>A memory output without the pattern.\<close>

definition noPattern :: string where
  "noPattern = ''MemTotal: unknown''"

text \<open>
  The scenario of the specification, with the outputs as the commands print them, each
  ended by a line feed: three hosts with 4 cores and 50 GB of free disk, of which
  \<^verbatim>\<open>10.0.0.2\<close> reports 1 GiB of memory and the others 4 GiB.
\<close>

definition scenarioAnswers :: "string \<Rightarrow> string \<Rightarrow> string" where
  "scenarioAnswers host command =
     (if host = ''10.0.0.2''
      then capacityAnswers ''4\<newline>'' ''MemTotal:        1048576 kB\<newline>'' ''50G\<newline>''
             host command
      else capacityAnswers ''4\<newline>'' ''MemTotal:        4194304 kB\<newline>'' ''50G\<newline>''
             host command)"

text \<open>
  Every service is active, and \<^verbatim>\<open>kubectl get nodes\<close> prints \<open>listing\<close>.
\<close>

definition healthAnswers :: "string \<Rightarrow> string \<Rightarrow> string \<Rightarrow> string" where
  "healthAnswers listing host command = (if command = nodesCommand then listing else ''active'')"

definition listing3 :: string where
  "listing3 = ''master-0 Ready\<newline>node-0 NotReady\<newline>node-1 Ready''"

definition listing2 :: string where
  "listing2 = ''node-a Ready\<newline>node-b Ready''"

definition listingShort :: string where
  "listingShort = ''node-a Ready\<newline>node-b\<newline>node-c Ready''"

section \<open>The pairwise network check\<close>

lemma checkPair_Name:
  "Name (fst (checkPair e c src dst w)) = ''Network Connectivity - '' @ src @ '' to '' @ dst"
  by (simp add: checkPair_def newResult_def Let_def split: prod.splits sum.splits)

lemma netInner_names:
  "map Name (fst (netInner e c i src js rs w)) =
     map Name rs @
     map (\<lambda>p. ''Network Connectivity - '' @ src @ '' to '' @ snd p) (filter (\<lambda>p. i < fst p) js)"
proof (induction js arbitrary: rs w)
  case Nil
  then show ?case by simp
next
  case (Cons p js)
  obtain j dst where p: "p = (j, dst)" by (cases p)
  show ?case
  proof (cases "i \<ge> j")
    case True
    then show ?thesis using Cons.IH p by simp
  next
    case False
    obtain r w' where cp: "checkPair e c src dst w = (r, w')"
      by (cases "checkPair e c src dst w")
    have "Name r = ''Network Connectivity - '' @ src @ '' to '' @ dst"
      using checkPair_Name [of e c src dst w] cp by simp
    then show ?thesis using False p cp Cons.IH [of "rs @ [r]" w'] by simp
  qed
qed

lemma netOuter_names:
  "map Name (fst (netOuter e c is rs w)) =
     map Name rs @
     concat (map (\<lambda>q. map (\<lambda>p. ''Network Connectivity - '' @ snd q @ '' to '' @ snd p)
        (filter (\<lambda>p. fst q < fst p) (enumerate 0 (hosts c)))) is)"
proof (induction "is" arbitrary: rs w)
  case Nil
  then show ?case by simp
next
  case (Cons q qs)
  obtain i src where q: "q = (i, src)" by (cases q)
  obtain rs' w' where ni: "netInner e c i src (enumerate 0 (hosts c)) rs w = (rs', w')"
    by (cases "netInner e c i src (enumerate 0 (hosts c)) rs w")
  have "map Name rs' =
      map Name rs @ map (\<lambda>p. ''Network Connectivity - '' @ src @ '' to '' @ snd p)
        (filter (\<lambda>p. i < fst p) (enumerate 0 (hosts c)))"
    using netInner_names [of e c i src "enumerate 0 (hosts c)" rs w] ni by simp
  then show ?case using q ni Cons.IH [of rs' w'] by simp
qed

lemma filter_gt_upt: "filter (\<lambda>j. i < j) [0..<n] = [Suc i..<n]"
  by (induction n) auto

lemma enumerate_nth: "enumerate 0 hs = map (\<lambda>j. (j, hs ! j)) [0..<length hs]"
proof (rule nth_equalityI)
  show "length (enumerate 0 hs) = length (map (\<lambda>j. (j, hs ! j)) [0..<length hs])" by simp
next
  fix i assume "i < length (enumerate 0 hs)"
  then show "enumerate 0 hs ! i = map (\<lambda>j. (j, hs ! j)) [0..<length hs] ! i"
    by (simp add: nth_enumerate_eq)
qed

lemma names_as_pairs:
  "concat (map (\<lambda>q. map (\<lambda>p. ''Network Connectivity - '' @ snd q @ '' to '' @ snd p)
        (filter (\<lambda>p. fst q < fst p) (enumerate 0 hs))) (enumerate 0 hs)) =
   map (pairName hs) (rosterPairs (length hs))"
  by (simp add: enumerate_nth rosterPairs_def map_concat filter_map comp_def filter_gt_upt
      pairName_def)

lemma sum_below:
  "n \<le> m \<Longrightarrow> 2 * sum_list (map (\<lambda>i. m - Suc i) [0..<n]) + n * (n + 1) = 2 * n * m"
proof (induction n)
  case 0
  then show ?case by simp
next
  case (Suc n)
  then have ih: "2 * sum_list (map (\<lambda>i. m - Suc i) [0..<n]) + n * (n + 1) = 2 * n * m"
    and lt: "Suc n \<le> m" by simp_all
  from lt obtain k where m: "m = Suc n + k" by (auto simp: le_iff_add)
  show ?case using ih unfolding m by (simp add: algebra_simps)
qed

lemma length_rosterPairs: "length (rosterPairs n) = n * (n - 1) div 2"
proof -
  have "length (rosterPairs n) = sum_list (map (\<lambda>i. n - Suc i) [0..<n])"
    by (simp add: rosterPairs_def length_concat comp_def)
  moreover have "2 * sum_list (map (\<lambda>i. n - Suc i) [0..<n]) + n * (n + 1) = 2 * n * n"
    using sum_below [of n n] by simp
  then have "2 * sum_list (map (\<lambda>i. n - Suc i) [0..<n]) = n * (n - 1)"
    by (cases n) (simp_all add: algebra_simps)
  ultimately show ?thesis by simp
qed

lemma distinct_tagged:
  "distinct xs \<Longrightarrow> distinct (concat (map (\<lambda>i. map (Pair i) [f i..<n]) xs))"
  by (induction xs) (auto simp: distinct_map inj_on_def)

lemma distinct_rosterPairs: "distinct (rosterPairs n)"
  unfolding rosterPairs_def by (rule distinct_tagged) simp

lemma set_rosterPairs: "set (rosterPairs n) = {(i, j). i < j \<and> j < n}"
  by (force simp: rosterPairs_def)

text \<open>
  C1.  For every roster of \<open>n\<close> hosts, every environment and every state of the world,
  the pairwise network check returns exactly \<open>n (n - 1) / 2\<close> results.  Their names, in
  order, are those of the pairs \<open>(i, j)\<close> of \<open>rosterPairs n\<close>: source the host at position
  \<open>i\<close>, destination the host at position \<open>j\<close>.  These pairs are exactly the pairs of
  positions with \<open>i < j < n\<close>, each once: no pair has \<open>i = j\<close>, and no unordered pair
  comes twice.
\<close>

theorem network_pairs:
  "map Name (fst (CheckNetworkConnectivity e c w)) =
     map (pairName (hosts c)) (rosterPairs (length (hosts c))) \<and>
   length (fst (CheckNetworkConnectivity e c w)) =
     length (hosts c) * (length (hosts c) - 1) div 2 \<and>
   distinct (rosterPairs (length (hosts c))) \<and>
   set (rosterPairs (length (hosts c))) = {(i, j). i < j \<and> j < length (hosts c)}"
proof -
  let ?n = "length (hosts c)"
  have names: "map Name (fst (CheckNetworkConnectivity e c w)) =
      map (pairName (hosts c)) (rosterPairs ?n)"
  proof (cases "?n < 2")
    case True
    then have "?n = 0 \<or> ?n = 1" by arith
    then have "rosterPairs ?n = []" by (auto simp: rosterPairs_def)
    then show ?thesis using True by (simp add: CheckNetworkConnectivity_def)
  next
    case False
    then show ?thesis
      using netOuter_names [of e c "enumerate 0 (hosts c)" "[]" w] names_as_pairs [of "hosts c"]
      by (simp add: CheckNetworkConnectivity_def)
  qed
  have "length (map Name (fst (CheckNetworkConnectivity e c w))) = length (rosterPairs ?n)"
    by (simp only: names length_map)
  then have "length (fst (CheckNetworkConnectivity e c w)) = ?n * (?n - 1) div 2"
    by (simp add: length_rosterPairs)
  then show ?thesis using names distinct_rosterPairs set_rosterPairs by blast
qed

theorem network_pairs_witness:
  "map Name (fst (CheckNetworkConnectivity (scriptedEnv [] pingAnswers)
      (NewChecker [''a'', ''b'', ''c''] ''root'' ''id_rsa'' 22) ())) =
     [''Network Connectivity - a to b'', ''Network Connectivity - a to c'',
      ''Network Connectivity - b to c''] \<and>
   length (fst (CheckNetworkConnectivity (scriptedEnv [] pingAnswers)
      (NewChecker [''a'', ''b'', ''c''] ''root'' ''id_rsa'' 22) ())) = 3"
proof -
  have rp: "rosterPairs (Suc (Suc (Suc 0))) =
      [(0, Suc 0), (0, Suc (Suc 0)), (Suc 0, Suc (Suc 0))]"
    by (simp add: rosterPairs_def upt_rec)
  show ?thesis
    using network_pairs [of "scriptedEnv [] pingAnswers"
        "NewChecker [''a'', ''b'', ''c''] ''root'' ''id_rsa'' 22" "()"]
    by (simp add: NewChecker_def rp pairName_def)
qed

text \<open>
  C9.  For every roster with fewer than two hosts the pairwise network check returns
  the empty list of results, and leaves the world as it was: it connects to no host.
\<close>

theorem network_small:
  "length (hosts c) < 2 \<Longrightarrow> CheckNetworkConnectivity e c w = ([], w)"
  by (simp add: CheckNetworkConnectivity_def)

theorem network_small_witness:
  "length (hosts (NewChecker [''10.0.0.1''] ''root'' ''id_rsa'' 22)) < 2 \<and>
   CheckNetworkConnectivity (scriptedEnv [] pingAnswers)
     (NewChecker [''10.0.0.1''] ''root'' ''id_rsa'' 22) () = ([], ())"
  using network_small [of "NewChecker [''10.0.0.1''] ''root'' ''id_rsa'' 22"
      "scriptedEnv [] pingAnswers" "()"]
  by (simp add: NewChecker_def)

section \<open>The version check\<close>

lemma Join_supported: "Join supportedVersions '', '' = ''v1.28, v1.29, v1.30''"
  by (simp add: supportedVersions_def)

text \<open>
  C2, as the code has it.  \<^verbatim>\<open>CheckKubernetesVersion\<close> takes no requested version: for
  every checker it returns the same single result, which has passed and whose message
  lists the supported versions \<^verbatim>\<open>v1.28, v1.29, v1.30\<close>; \<^verbatim>\<open>RunAll\<close> appends exactly this
  result after those of the other checks.
\<close>

theorem version_check_constant:
  "CheckKubernetesVersion c =
     \<lparr>Name = ''Kubernetes Version Compatibility'', Passed = True,
      Message = ''Supported versions: v1.28, v1.29, v1.30'',
      Details = [''supported_versions'' \<mapsto> DStrings [''v1.28'', ''v1.29'', ''v1.30'']]\<rparr> \<and>
   (\<exists>others. fst (RunAll e c w) = others @ [CheckKubernetesVersion c])"
proof -
  have "fst (RunAll e c w) =
      (fst (CheckSSHConnectivity e c w) @
       fst (CheckSystemRequirements e c (snd (CheckSSHConnectivity e c w))) @
       fst (CheckNetworkConnectivity e c
             (snd (CheckSystemRequirements e c (snd (CheckSSHConnectivity e c w)))))) @
      [CheckKubernetesVersion c]"
    by (simp add: RunAll_def split: prod.splits)
  then have "\<exists>others. fst (RunAll e c w) = others @ [CheckKubernetesVersion c]" by blast
  then show ?thesis
    by (simp add: CheckKubernetesVersion_def newResult_def Join_supported)
      (simp add: supportedVersions_def)
qed

theorem version_check_constant_witness:
  "Passed (CheckKubernetesVersion (NewChecker [''10.0.0.1''] ''root'' ''id_rsa'' 22)) \<and>
   Message (CheckKubernetesVersion (NewChecker [''10.0.0.1''] ''root'' ''id_rsa'' 22)) =
     ''Supported versions: v1.28, v1.29, v1.30''"
  using version_check_constant [of "NewChecker [''10.0.0.1''] ''root'' ''id_rsa'' 22"
      "scriptedEnv [] pingAnswers" "()"]
  by simp

text \<open>
  C2, as the claim states it, fails: the comparison of the specification rejects the
  version \<^verbatim>\<open>v1.27\<close>, and the result of \<^verbatim>\<open>CheckKubernetesVersion\<close> has passed all the
  same; the checker has no field that could hold a requested version.
\<close>

theorem version_check_counterexample:
  "\<not> specVersionPasses ''v1.27'' \<and>
   Passed (CheckKubernetesVersion (NewChecker [''10.0.0.1''] ''root'' ''id_rsa'' 22))"
  by (simp add: specVersionPasses_def supportedVersions_def CheckKubernetesVersion_def newResult_def)

section \<open>The health checks\<close>

subsection \<open>The verdict\<close>

lemma overallLoop_all: "overallLoop cs True = (\<forall>s \<in> set cs. Healthy s)"
  by (induction cs) auto

lemma health_overall:
  "overallHealthy (fst (CheckClusterHealth e m w)) =
     overallLoop (Components (fst (CheckClusterHealth e m w))) True"
  by (simp add: CheckClusterHealth_def Let_def split: prod.splits)

text \<open>
  C5.  In every record that \<^verbatim>\<open>CheckClusterHealth\<close> returns, the overall flag is false if
  and only if some component of the record is not healthy; and the loop that computes
  the flag gives true for no components at all.
\<close>

theorem overall_healthy_iff:
  "(\<not> overallHealthy (fst (CheckClusterHealth e m w))) =
     (\<exists>s \<in> set (Components (fst (CheckClusterHealth e m w))). \<not> Healthy s) \<and>
   overallLoop [] True = True"
  by (simp add: health_overall overallLoop_all)

theorem overall_healthy_iff_witness:
  "\<not> overallHealthy (fst (CheckClusterHealth (scriptedEnv [''10.0.0.2''] (healthAnswers listing2))
       (NewMonitor [''10.0.0.1''] [''10.0.0.2''] ''root'' ''id_rsa'' 22) ())) \<and>
   \<not> Healthy (Components (fst (CheckClusterHealth (scriptedEnv [''10.0.0.2''] (healthAnswers listing2))
       (NewMonitor [''10.0.0.1''] [''10.0.0.2''] ''root'' ''id_rsa'' 22) ())) ! 3)"
proof -
  let ?h = "fst (CheckClusterHealth (scriptedEnv [''10.0.0.2''] (healthAnswers listing2))
       (NewMonitor [''10.0.0.1''] [''10.0.0.2''] ''root'' ''id_rsa'' 22) ())"
  have len: "length (Components ?h) = 6" by code_simp
  have bad: "\<not> Healthy (Components ?h ! 3)" by code_simp
  have "Components ?h ! 3 \<in> set (Components ?h)" using len by simp
  then have "\<exists>s \<in> set (Components ?h). \<not> Healthy s" using bad by blast
  then have "\<not> overallHealthy ?h"
    using overall_healthy_iff [of "scriptedEnv [''10.0.0.2''] (healthAnswers listing2)"
        "NewMonitor [''10.0.0.1''] [''10.0.0.2''] ''root'' ''id_rsa'' 22" "()"]
    by blast
  then show ?thesis using bad by blast
qed

subsection \<open>The kubelet of every host\<close>

lemma kubeletStatus_name: "compName (fst (kubeletStatus e m h w)) = ''kubelet - '' @ h"
  by (simp add: kubeletStatus_def newStatus_def Let_def split: prod.splits sum.splits)

lemma kubeletLoop_acc:
  "kubeletLoop e m hs acc w =
     (acc @ fst (kubeletLoop e m hs [] w), snd (kubeletLoop e m hs [] w))"
proof (induction hs arbitrary: acc w)
  case Nil
  then show ?case by simp
next
  case (Cons h hs)
  obtain s w' where ks: "kubeletStatus e m h w = (s, w')" by (cases "kubeletStatus e m h w")
  show ?case
    using Cons.IH [of "acc @ [s]" w'] Cons.IH [of "[s]" w'] ks by simp
qed

lemma kubeletLoop_append:
  "kubeletLoop e m (pre @ post) acc w =
     kubeletLoop e m post (fst (kubeletLoop e m pre acc w)) (snd (kubeletLoop e m pre acc w))"
  by (induction pre arbitrary: acc w) (simp_all split: prod.splits)

lemma kubeletLoop_names:
  "map compName (fst (kubeletLoop e m hs acc w)) =
     map compName acc @ map (\<lambda>h. ''kubelet - '' @ h) hs"
proof (induction hs arbitrary: acc w)
  case Nil
  then show ?case by simp
next
  case (Cons h hs)
  obtain s w' where ks: "kubeletStatus e m h w = (s, w')" by (cases "kubeletStatus e m h w")
  have "compName s = ''kubelet - '' @ h" using kubeletStatus_name [of e m h w] ks by simp
  then show ?case using Cons.IH [of "acc @ [s]" w'] ks by simp
qed

lemma kubeletLoop_length: "length (fst (kubeletLoop e m hs [] w)) = length hs"
proof -
  have "length (map compName (fst (kubeletLoop e m hs [] w))) = length hs"
    by (simp only: kubeletLoop_names) simp
  then show ?thesis by simp
qed

lemma kubeletStatus_refused:
  "monitorConnect e m host w = (Inl err, w1) \<Longrightarrow>
   kubeletStatus e m host w =
     (\<lparr>compName = ''kubelet - '' @ host, Healthy = False,
       compMessage = ''Cannot connect: '' @ err, compDetails = Map.empty\<rparr>, w1)"
  by (simp add: kubeletStatus_def newStatus_def)

text \<open>
  C8.  \<^verbatim>\<open>checkKubelet\<close> returns one status for every host of the roster, the masters
  first and then the nodes, each named after its host.  When the connection to a host
  \<open>host\<close> of the roster is refused, the statuses \<open>before\<close> of the hosts in front of it are
  followed by a status for \<open>host\<close> that is not healthy and carries the error, and then by
  one status for each of the hosts \<open>post\<close> behind it.
\<close>

theorem kubelet_one_per_host:
  "map compName (fst (checkKubelet e m w)) = map (\<lambda>h. ''kubelet - '' @ h) (masters m @ nodes m) \<and>
   (masters m @ nodes m = pre @ host # post \<and>
    kubeletLoop e m pre [] w = (before, w0) \<and>
    monitorConnect e m host w0 = (Inl err, w1) \<longrightarrow>
      fst (checkKubelet e m w) =
        before @
        \<lparr>compName = ''kubelet - '' @ host, Healthy = False,
          compMessage = ''Cannot connect: '' @ err, compDetails = Map.empty\<rparr> #
        fst (kubeletLoop e m post [] w1) \<and>
      length before = length pre \<and>
      length (fst (kubeletLoop e m post [] w1)) = length post)"
proof (intro conjI impI)
  show "map compName (fst (checkKubelet e m w)) = map (\<lambda>h. ''kubelet - '' @ h) (masters m @ nodes m)"
    by (simp add: checkKubelet_def kubeletLoop_names)
next
  assume a: "masters m @ nodes m = pre @ host # post \<and>
    kubeletLoop e m pre [] w = (before, w0) \<and>
    monitorConnect e m host w0 = (Inl err, w1)"
  let ?fail = "\<lparr>compName = ''kubelet - '' @ host, Healthy = False,
          compMessage = ''Cannot connect: '' @ err, compDetails = Map.empty\<rparr>"
  have ks: "kubeletStatus e m host w0 = (?fail, w1)"
    using a by (simp add: kubeletStatus_refused)
  have "kubeletLoop e m (pre @ host # post) [] w = kubeletLoop e m (host # post) before w0"
    using a by (simp add: kubeletLoop_append)
  also have "\<dots> = kubeletLoop e m post (before @ [?fail]) w1"
    using ks by simp
  finally have "fst (kubeletLoop e m (pre @ host # post) [] w) =
      (before @ [?fail]) @ fst (kubeletLoop e m post [] w1)"
    using kubeletLoop_acc [of e m post "before @ [?fail]" w1] by simp
  then show "fst (checkKubelet e m w) = before @ ?fail # fst (kubeletLoop e m post [] w1)"
    using a by (simp add: checkKubelet_def)
  show "length before = length pre"
    using a kubeletLoop_length [of e m pre w] by simp
  show "length (fst (kubeletLoop e m post [] w1)) = length post"
    by (rule kubeletLoop_length)
qed

theorem kubelet_one_per_host_witness:
  "masters (NewMonitor [''a'', ''b''] [''c''] ''root'' ''id_rsa'' 22) @
     nodes (NewMonitor [''a'', ''b''] [''c''] ''root'' ''id_rsa'' 22) = [''a''] @ ''b'' # [''c''] \<and>
   monitorConnect (scriptedEnv [''b''] (healthAnswers listing2))
     (NewMonitor [''a'', ''b''] [''c''] ''root'' ''id_rsa'' 22) ''b'' () =
     (Inl ''SSH dial failed: connection refused'', ()) \<and>
   map (\<lambda>s. (compName s, Healthy s))
     (fst (checkKubelet (scriptedEnv [''b''] (healthAnswers listing2))
        (NewMonitor [''a'', ''b''] [''c''] ''root'' ''id_rsa'' 22) ())) =
     [(''kubelet - a'', True), (''kubelet - b'', False), (''kubelet - c'', True)]"
proof -
  let ?e = "scriptedEnv [''b''] (healthAnswers listing2)"
  let ?m = "NewMonitor [''a'', ''b''] [''c''] ''root'' ''id_rsa'' 22"
  let ?a = "\<lparr>compName = ''kubelet - a'', Healthy = True, compMessage = ''kubelet is running'',
             compDetails = Map.empty\<rparr>"
  let ?c = "\<lparr>compName = ''kubelet - c'', Healthy = True, compMessage = ''kubelet is running'',
             compDetails = Map.empty\<rparr>"
  have split: "masters ?m @ nodes ?m = [''a''] @ ''b'' # [''c'']" by (simp add: NewMonitor_def)
  have pre: "kubeletLoop ?e ?m [''a''] [] () = ([?a], ())"
    by (simp add: kubeletStatus_def monitorConnect_def runCommand_def scriptedEnv_def
        healthAnswers_def newStatus_def NewMonitor_def nodesCommand_def)
  have refused: "monitorConnect ?e ?m ''b'' () = (Inl ''SSH dial failed: connection refused'', ())"
    by code_simp
  have post: "fst (kubeletLoop ?e ?m [''c''] [] ()) = [?c]"
    by (simp add: kubeletStatus_def monitorConnect_def runCommand_def scriptedEnv_def
        healthAnswers_def newStatus_def NewMonitor_def nodesCommand_def)
  have "fst (checkKubelet ?e ?m ()) =
      [?a] @ \<lparr>compName = ''kubelet - '' @ ''b'', Healthy = False,
        compMessage = ''Cannot connect: '' @ ''SSH dial failed: connection refused'',
        compDetails = Map.empty\<rparr> # fst (kubeletLoop ?e ?m [''c''] [] ())"
    using kubelet_one_per_host [of ?e ?m "()" "[''a'']" "''b''" "[''c'']" "[?a]" "()"
        "''SSH dial failed: connection refused''" "()"] split pre refused
    by blast
  then show ?thesis using split refused post by simp
qed

subsection \<open>Node readiness\<close>





text \<open>
  The loop over the lines of a listing, which the monitor of the source does not reach,
  run on the lines of the claim: the condition \<^verbatim>\<open>NotReady\<close> contains \<^verbatim>\<open>Ready\<close>, so the
  test \<^verbatim>\<open>strings.Contains(nodeStatus, "Ready")\<close> gives a healthy status for \<^verbatim>\<open>node-0\<close>
  as well.
\<close>

lemma nodeLines_not_ready:
  "map (\<lambda>s. (compName s, Healthy s, compMessage s))
     (nodeLines (splitByte CHR 0x0A (TrimSpace listing3)) []) =
     [(''Node - master-0'', True, ''Node is Ready''), (''Node - node-0'', True, ''Node is Ready''),
      (''Node - node-1'', True, ''Node is Ready'')]"
  by code_simp

lemma nodeLines_skip:
  "length (Fields line) < 2 \<Longrightarrow>
   nodeLines (pre @ line # post) statuses = nodeLines (pre @ post) statuses"
  by (induction pre arbitrary: statuses) (simp_all add: Let_def)

text \<open>
  C10.  When the listing is parsed (a master is configured, the connection to it and the
  listing command succeed, and the output does not say that \<^verbatim>\<open>kubectl\<close> is missing), a
  line with fewer than two fields adds no status and does not change the number of ready
  nodes: the statuses and the count are those of the listing without that line.
\<close>

theorem short_line_skipped:
  assumes "length (Fields line) < 2"
    and "masters m = masterHost # others"
    and "monitorConnect e m masterHost w = (Inr cl, w1)"
    and "runCommand e cl nodesCommand w1 = ((output, None), w2)"
    and "\<not> Contains output ''kubectl-not-available''"
    and "splitByte CHR 0x0A (TrimSpace output) = pre @ line # post"
  shows "fst (checkNodeStatus e m w) = nodeLines (pre @ post) [] \<and>
         countReadyNodes (fst (checkNodeStatus e m w)) = countReadyNodes (nodeLines (pre @ post) [])"
  using assms by (simp add: checkNodeStatus_def nodeLines_skip)

theorem short_line_skipped_witness:
  "length (Fields ''node-b'') < 2 \<and>
   splitByte CHR 0x0A (TrimSpace listingShort) = [''node-a Ready''] @ ''node-b'' # [''node-c Ready''] \<and>
   map compName (fst (checkNodeStatus (scriptedEnv [] (healthAnswers listingShort))
       (NewMonitor [''10.0.0.1''] [] ''root'' ''id_rsa'' 22) ())) = [''Node - node-a'', ''Node - node-c''] \<and>
   countReadyNodes (fst (checkNodeStatus (scriptedEnv [] (healthAnswers listingShort))
       (NewMonitor [''10.0.0.1''] [] ''root'' ''id_rsa'' 22) ())) = 2"
proof -
  let ?e = "scriptedEnv [] (healthAnswers listingShort)"
  let ?m = "NewMonitor [''10.0.0.1''] [] ''root'' ''id_rsa'' 22"
  have h1: "length (Fields ''node-b'') < 2" by code_simp
  have h2: "masters ?m = ''10.0.0.1'' # []" by (simp add: NewMonitor_def)
  have h3: "monitorConnect ?e ?m ''10.0.0.1'' () = (Inr (Client ''10.0.0.1''), ())" by code_simp
  have h4: "runCommand ?e (Client ''10.0.0.1'') nodesCommand () = ((listingShort, None), ())"
    by (simp add: runCommand_def scriptedEnv_def healthAnswers_def)
  have h5: "\<not> Contains listingShort ''kubectl-not-available''" by code_simp
  have h6: "splitByte CHR 0x0A (TrimSpace listingShort) =
      [''node-a Ready''] @ ''node-b'' # [''node-c Ready'']" by code_simp
  have names: "map compName (nodeLines ([''node-a Ready''] @ [''node-c Ready'']) []) =
      [''Node - node-a'', ''Node - node-c'']" by code_simp
  have count: "countReadyNodes (nodeLines ([''node-a Ready''] @ [''node-c Ready'']) []) = 2"
    by code_simp
  show ?thesis
    using short_line_skipped [OF h1 h2 h3 h4 h5 h6] h1 h6 names count by simp
qed

subsection \<open>The counts\<close>

lemma health_fields:
  "\<exists>api etcd w2 w3.
     Components (fst (CheckClusterHealth e m w)) =
       api # etcd # fst (checkKubelet e m w2) @ fst (checkNodeStatus e m w3) \<and>
     ReadyNodes (fst (CheckClusterHealth e m w)) = countReadyNodes (fst (checkNodeStatus e m w3)) \<and>
     NodeCount (fst (CheckClusterHealth e m w)) = length (masters m) + length (nodes m)"
proof -
  obtain api w1 where a: "checkAPIServer e m w = (api, w1)" by (cases "checkAPIServer e m w")
  obtain etcd w2 where b: "checkEtcd e m w1 = (etcd, w2)" by (cases "checkEtcd e m w1")
  obtain ks w3 where c: "checkKubelet e m w2 = (ks, w3)" by (cases "checkKubelet e m w2")
  obtain ns w4 where d: "checkNodeStatus e m w3 = (ns, w4)" by (cases "checkNodeStatus e m w3")
  have "Components (fst (CheckClusterHealth e m w)) = api # etcd # ks @ ns"
    and "ReadyNodes (fst (CheckClusterHealth e m w)) = countReadyNodes ns"
    and "NodeCount (fst (CheckClusterHealth e m w)) = length (masters m) + length (nodes m)"
    using a b c d by (simp_all add: CheckClusterHealth_def)
  then show ?thesis using c d by (metis fst_conv)
qed

lemma stub_nodeStatus: "countReadyNodes (fst (checkNodeStatus (withStub e) m w)) = 0"
  by (simp add: checkNodeStatus_def monitorConnect_def withStub_def countReadyNodes_def
      split: list.splits)

text \<open>
  C6.  In every record that the monitor of the source returns, for every roster, every
  environment (so whatever the listing command would print) and every state of the
  world, the number of ready nodes is at most the total number of nodes: the total is
  the size of the roster, and the number of ready nodes is 0, since the connection to
  the first master fails and no listing is read.
\<close>

theorem ready_le_total:
  "ReadyNodes (fst (CheckClusterHealth (withStub e) m w))
     \<le> NodeCount (fst (CheckClusterHealth (withStub e) m w)) \<and>
   ReadyNodes (fst (CheckClusterHealth (withStub e) m w)) = 0 \<and>
   NodeCount (fst (CheckClusterHealth (withStub e) m w)) = length (masters m) + length (nodes m)"
proof -
  have "\<exists>w3. ReadyNodes (fst (CheckClusterHealth (withStub e) m w)) =
       countReadyNodes (fst (checkNodeStatus (withStub e) m w3))"
    and total: "NodeCount (fst (CheckClusterHealth (withStub e) m w)) =
       length (masters m) + length (nodes m)"
    using health_fields [of "withStub e" m w] by blast+
  then have "ReadyNodes (fst (CheckClusterHealth (withStub e) m w)) = 0"
    by (auto simp: stub_nodeStatus)
  then show ?thesis using total by simp
qed

theorem ready_le_total_witness:
  "ReadyNodes (fst (CheckClusterHealth (withStub (scriptedEnv [] (healthAnswers listing2)))
       (NewMonitor [''10.0.0.1''] [] ''root'' ''id_rsa'' 22) ())) = 0 \<and>
   NodeCount (fst (CheckClusterHealth (withStub (scriptedEnv [] (healthAnswers listing2)))
       (NewMonitor [''10.0.0.1''] [] ''root'' ''id_rsa'' 22) ())) = 1"
  using ready_le_total [of "scriptedEnv [] (healthAnswers listing2)"
      "NewMonitor [''10.0.0.1''] [] ''root'' ''id_rsa'' 22" "()"]
  by (simp add: NewMonitor_def)

section \<open>The capacity check\<close>

lemma fmtInt_minimums: "fmtInt 2 = ''2''" "fmtInt 20 = ''20''"
  by code_simp+

lemma checkCPU_name:
  "checkCPU e cl r w = (x, w') \<Longrightarrow> Name (case x of Inl f \<Rightarrow> f | Inr g \<Rightarrow> g) = Name r"
  by (auto simp: checkCPU_def Let_def split: prod.splits if_splits)

lemma checkMemory_name:
  "checkMemory e cl r w = (x, w') \<Longrightarrow> Name (case x of Inl f \<Rightarrow> f | Inr g \<Rightarrow> g) = Name r"
  by (auto simp: checkMemory_def Let_def split: prod.splits if_splits option.splits)

lemma checkDisk_name:
  "checkDisk e cl r w = (x, w') \<Longrightarrow> Name (case x of Inl f \<Rightarrow> f | Inr g \<Rightarrow> g) = Name r"
  by (auto simp: checkDisk_def Let_def split: prod.splits if_splits)

lemma hostRequirements_name:
  "Name (fst (hostRequirements e c host w)) = ''System Requirements - '' @ host"
proof (cases "sshConnect e c host w")
  case (Pair conn w0)
  show ?thesis
  proof (cases conn)
    case (Inl err)
    then show ?thesis using Pair by (simp add: hostRequirements_def newResult_def)
  next
    case (Inr cl)
    let ?r = "newResult (''System Requirements - '' @ host)"
    obtain x1 w1 where c1: "checkCPU e cl ?r w0 = (x1, w1)" by (cases "checkCPU e cl ?r w0")
    note n1 = checkCPU_name [OF c1]
    show ?thesis
    proof (cases x1)
      case (Inl f)
      then show ?thesis using Pair Inr c1 n1 by (simp add: hostRequirements_def newResult_def)
    next
      case r1: (Inr r1)
      obtain x2 w2 where c2: "checkMemory e cl r1 w1 = (x2, w2)" by (cases "checkMemory e cl r1 w1")
      note n2 = checkMemory_name [OF c2]
      show ?thesis
      proof (cases x2)
        case (Inl f)
        then show ?thesis using Pair Inr c1 n1 r1 c2 n2
          by (simp add: hostRequirements_def newResult_def)
      next
        case r2: (Inr r2)
        obtain x3 w3 where c3: "checkDisk e cl r2 w2 = (x3, w3)" by (cases "checkDisk e cl r2 w2")
        note n3 = checkDisk_name [OF c3]
        show ?thesis using Pair Inr c1 n1 r1 c2 n2 r2 c3 n3
          by (cases x3) (simp_all add: hostRequirements_def newResult_def)
      qed
    qed
  qed
qed

lemma reqLoop_acc:
  "reqLoop e c hs acc w = (acc @ fst (reqLoop e c hs [] w), snd (reqLoop e c hs [] w))"
proof (induction hs arbitrary: acc w)
  case Nil
  then show ?case by simp
next
  case (Cons h hs)
  obtain r w' where hr: "hostRequirements e c h w = (r, w')" by (cases "hostRequirements e c h w")
  show ?case
    using Cons.IH [of "acc @ [r]" w'] Cons.IH [of "[r]" w'] hr by simp
qed

lemma reqLoop_append:
  "reqLoop e c (pre @ post) acc w =
     reqLoop e c post (fst (reqLoop e c pre acc w)) (snd (reqLoop e c pre acc w))"
  by (induction pre arbitrary: acc w) (simp_all split: prod.splits)

lemma reqLoop_names:
  "map Name (fst (reqLoop e c hs acc w)) =
     map Name acc @ map (\<lambda>h. ''System Requirements - '' @ h) hs"
proof (induction hs arbitrary: acc w)
  case Nil
  then show ?case by simp
next
  case (Cons h hs)
  obtain r w' where hr: "hostRequirements e c h w = (r, w')" by (cases "hostRequirements e c h w")
  have "Name r = ''System Requirements - '' @ h" using hostRequirements_name [of e c h w] hr by simp
  then show ?case using Cons.IH [of "acc @ [r]" w'] hr by simp
qed

lemma reqLoop_position:
  "reqLoop e c pre [] w = (before, v) \<Longrightarrow>
   fst (reqLoop e c (pre @ host # post) [] w) =
     before @ fst (hostRequirements e c host v) #
       fst (reqLoop e c post [] (snd (hostRequirements e c host v)))"
proof -
  assume a: "reqLoop e c pre [] w = (before, v)"
  obtain r v' where hr: "hostRequirements e c host v = (r, v')" by (cases "hostRequirements e c host v")
  have "reqLoop e c (pre @ host # post) [] w = reqLoop e c (host # post) before v"
    using a by (simp add: reqLoop_append)
  also have "\<dots> = reqLoop e c post (before @ [r]) v'" using hr by simp
  finally show ?thesis using reqLoop_acc [of e c post "before @ [r]" v'] hr by simp
qed

lemma reqLoop_length: "length (fst (reqLoop e c hs [] w)) = length hs"
proof -
  have "length (map Name (fst (reqLoop e c hs [] w))) = length hs"
    by (simp only: reqLoop_names) simp
  then show ?thesis by simp
qed

text \<open>
  The capacity check on the values it reads.  \<^verbatim>\<open>CheckSystemRequirements\<close> returns exactly
  one result for every host of the roster, in roster order and named after the host: the
  result of the loop body for that host, run in the world the hosts before it left.  When
  the connection succeeds and the three commands succeed, the memory output with the
  pattern, the result is decided in the order cores, memory, disk by the values \<open>cpu\<close>,
  \<open>memGB\<close> and \<open>diskGB\<close> that the code reads from the outputs: the first below its minimum
  (2, 2, 20) gives a failing result whose message names the value and the minimum, and the
  later commands are not run; when none is below, the result has passed.
\<close>

lemma capacity_on_values_read:
  "length (fst (CheckSystemRequirements e c w)) = length (hosts c) \<and>
   map Name (fst (CheckSystemRequirements e c w)) =
     map (\<lambda>h. ''System Requirements - '' @ h) (hosts c) \<and>
   (hosts c = pre @ host # post \<and> reqLoop e c pre [] w = (before, v) \<longrightarrow>
      fst (CheckSystemRequirements e c w) =
        before @ fst (hostRequirements e c host v) #
          fst (reqLoop e c post [] (snd (hostRequirements e c host v)))) \<and>
   (sshConnect e c host v = (Inr cl, v0) \<and>
    runSSHCommand e cl ''nproc'' v0 = ((cpuCount, None), v1) \<and>
    cpu = fst (Atoi (TrimSpace cpuCount)) \<longrightarrow>
     (cpu < 2 \<longrightarrow>
        hostRequirements e c host v =
          (\<lparr>Name = ''System Requirements - '' @ host, Passed = False,
            Message = ''Insufficient CPU cores: '' @ fmtInt cpu @ '' (minimum: 2)'',
            Details = [''cpu_cores'' \<mapsto> DInt cpu]\<rparr>, v1)) \<and>
     (2 \<le> cpu \<and>
      runSSHCommand e cl memCommand v1 = ((memInfo, None), v2) \<and>
      findMemTotal memInfo = Some memDigits \<and>
      memGB = quot (quot (fst (Atoi memDigits)) 1024) 1024 \<longrightarrow>
        (memGB < 2 \<longrightarrow>
           hostRequirements e c host v =
             (\<lparr>Name = ''System Requirements - '' @ host, Passed = False,
               Message = ''Insufficient memory: '' @ fmtInt memGB @ ''GB (minimum: 2GB)'',
               Details = [''cpu_cores'' \<mapsto> DInt cpu, ''memory_gb'' \<mapsto> DInt memGB]\<rparr>, v2)) \<and>
        (2 \<le> memGB \<and>
         runSSHCommand e cl diskCommand v2 = ((diskInfo, None), v3) \<and>
         diskGB = fst (Atoi (TrimSpace (TrimSuffix diskInfo ''G''))) \<longrightarrow>
           (diskGB < 20 \<longrightarrow>
              hostRequirements e c host v =
                (\<lparr>Name = ''System Requirements - '' @ host, Passed = False,
                  Message = ''Insufficient disk space: '' @ fmtInt diskGB @ ''GB (minimum: 20GB)'',
                  Details = [''cpu_cores'' \<mapsto> DInt cpu, ''memory_gb'' \<mapsto> DInt memGB,
                             ''disk_available_gb'' \<mapsto> DInt diskGB]\<rparr>, v3)) \<and>
           (20 \<le> diskGB \<longrightarrow>
              hostRequirements e c host v =
                (\<lparr>Name = ''System Requirements - '' @ host, Passed = True,
                  Message = ''System requirements met'',
                  Details = [''cpu_cores'' \<mapsto> DInt cpu, ''memory_gb'' \<mapsto> DInt memGB,
                             ''disk_available_gb'' \<mapsto> DInt diskGB]\<rparr>, v3)))))"
proof (intro conjI)
  show "length (fst (CheckSystemRequirements e c w)) = length (hosts c)"
    by (simp add: CheckSystemRequirements_def reqLoop_length)
  show "map Name (fst (CheckSystemRequirements e c w)) =
      map (\<lambda>h. ''System Requirements - '' @ h) (hosts c)"
    by (simp add: CheckSystemRequirements_def reqLoop_names)
  show "hosts c = pre @ host # post \<and> reqLoop e c pre [] w = (before, v) \<longrightarrow>
      fst (CheckSystemRequirements e c w) =
        before @ fst (hostRequirements e c host v) #
          fst (reqLoop e c post [] (snd (hostRequirements e c host v)))"
    using reqLoop_position [of e c pre w before v host post]
    by (simp add: CheckSystemRequirements_def)
qed (simp add: hostRequirements_def checkCPU_def checkMemory_def checkDisk_def newResult_def
    Let_def minCPU_def minMemoryGB_def minDiskGB_def fmtInt_minimums)

text \<open>
  How the disk value is read: the suffix \<^verbatim>\<open>G\<close> is trimmed before the white space, so an
  output that ends in a line feed after the \<^verbatim>\<open>G\<close>, as \<^verbatim>\<open>df\<close> and \<^verbatim>\<open>awk\<close> print it,
  keeps the \<^verbatim>\<open>G\<close> and is read as 0.
\<close>

lemma disk_value_read:
  "fst (Atoi (TrimSpace (TrimSuffix ''25G'' ''G''))) = 25"
  "fst (Atoi (TrimSpace (TrimSuffix ''25G\<newline>'' ''G''))) = 0"
  by code_simp+

text \<open>
  C7, at the scenario of the specification.  The three hosts have 4 cores and 50 GB of
  free disk, and \<^verbatim>\<open>10.0.0.1\<close> and \<^verbatim>\<open>10.0.0.3\<close> have 4 GiB of memory: they meet the three
  minimums.  The check reads their disk value as 0 and returns for each the failing
  result \<^verbatim>\<open>Insufficient disk space: 0GB (minimum: 20GB)\<close>, where the claim has a passing
  result; \<^verbatim>\<open>10.0.0.2\<close> fails on its memory, as the claim has it.
\<close>

theorem disk_suffix_not_trimmed:
  "map (\<lambda>r. (Name r, Passed r, Message r, Details r ''disk_available_gb''))
     (fst (CheckSystemRequirements (scriptedEnv [] scenarioAnswers)
        (NewChecker [''10.0.0.1'', ''10.0.0.2'', ''10.0.0.3''] ''root'' ''id_rsa'' 22) ())) =
     [(''System Requirements - 10.0.0.1'', False,
       ''Insufficient disk space: 0GB (minimum: 20GB)'', Some (DInt 0)),
      (''System Requirements - 10.0.0.2'', False,
       ''Insufficient memory: 1GB (minimum: 2GB)'', None),
      (''System Requirements - 10.0.0.3'', False,
       ''Insufficient disk space: 0GB (minimum: 20GB)'', Some (DInt 0))]"
  by code_simp

theorem disk_suffix_not_trimmed_witness:
  "map Passed
     (fst (CheckSystemRequirements (scriptedEnv [] scenarioAnswers)
        (NewChecker [''10.0.0.1'', ''10.0.0.2'', ''10.0.0.3''] ''root'' ''id_rsa'' 22) ())) =
     [False, False, False]"
proof -
  have "map Passed
      (fst (CheckSystemRequirements (scriptedEnv [] scenarioAnswers)
        (NewChecker [''10.0.0.1'', ''10.0.0.2'', ''10.0.0.3''] ''root'' ''id_rsa'' 22) ())) =
      map (\<lambda>x. fst (snd x))
        (map (\<lambda>r. (Name r, Passed r, Message r, Details r ''disk_available_gb''))
          (fst (CheckSystemRequirements (scriptedEnv [] scenarioAnswers)
            (NewChecker [''10.0.0.1'', ''10.0.0.2'', ''10.0.0.3''] ''root'' ''id_rsa'' 22) ())))"
    by (simp add: comp_def)
  then show ?thesis by (simp only: disk_suffix_not_trimmed) simp
qed

text \<open>
  C4, as the code has it.  When the memory output lacks the pattern, the memory comparison
  is skipped: the result is decided by the cores and the disk alone, it has passed exactly
  when there are at least 2 cores and 20 GB of disk, and its only trace of the parsing
  failure is that the details have no \<^verbatim>\<open>memory_gb\<close>.
\<close>

theorem memory_pattern_absent:
  assumes "sshConnect e c host v = (Inr cl, v0)"
    and "runSSHCommand e cl ''nproc'' v0 = ((cpuCount, None), v1)"
    and "runSSHCommand e cl memCommand v1 = ((memInfo, None), v2)"
    and "findMemTotal memInfo = None"
    and "runSSHCommand e cl diskCommand v2 = ((diskInfo, None), v3)"
    and "cpu = fst (Atoi (TrimSpace cpuCount))"
    and "diskGB = fst (Atoi (TrimSpace (TrimSuffix diskInfo ''G'')))"
  shows "hostRequirements e c host v =
     (if cpu < 2 then
        (\<lparr>Name = ''System Requirements - '' @ host, Passed = False,
          Message = ''Insufficient CPU cores: '' @ fmtInt cpu @ '' (minimum: 2)'',
          Details = [''cpu_cores'' \<mapsto> DInt cpu]\<rparr>, v1)
      else if diskGB < 20 then
        (\<lparr>Name = ''System Requirements - '' @ host, Passed = False,
          Message = ''Insufficient disk space: '' @ fmtInt diskGB @ ''GB (minimum: 20GB)'',
          Details = [''cpu_cores'' \<mapsto> DInt cpu, ''disk_available_gb'' \<mapsto> DInt diskGB]\<rparr>, v3)
      else
        (\<lparr>Name = ''System Requirements - '' @ host, Passed = True,
          Message = ''System requirements met'',
          Details = [''cpu_cores'' \<mapsto> DInt cpu, ''disk_available_gb'' \<mapsto> DInt diskGB]\<rparr>, v3)) \<and>
     Passed (fst (hostRequirements e c host v)) = (2 \<le> cpu \<and> 20 \<le> diskGB) \<and>
     Details (fst (hostRequirements e c host v)) ''memory_gb'' = None"
  using assms
  by (simp add: hostRequirements_def checkCPU_def checkMemory_def checkDisk_def newResult_def
      Let_def minCPU_def minMemoryGB_def minDiskGB_def fmtInt_minimums)

theorem memory_pattern_absent_witness:
  "findMemTotal noPattern = None \<and>
   hostRequirements (scriptedEnv [] (capacityAnswers ''4'' noPattern ''10G''))
      (NewChecker [''10.0.0.2''] ''root'' ''id_rsa'' 22) ''10.0.0.2'' () =
     (\<lparr>Name = ''System Requirements - 10.0.0.2'', Passed = False,
       Message = ''Insufficient disk space: 10GB (minimum: 20GB)'',
       Details = [''cpu_cores'' \<mapsto> DInt 4, ''disk_available_gb'' \<mapsto> DInt 10]\<rparr>, ())"
proof -
  let ?e = "scriptedEnv [] (capacityAnswers ''4'' noPattern ''10G'')"
  let ?c = "NewChecker [''10.0.0.2''] ''root'' ''id_rsa'' 22"
  have conn: "sshConnect ?e ?c ''10.0.0.2'' () = (Inr (Client ''10.0.0.2''), ())" by code_simp
  have cpuRun: "runSSHCommand ?e (Client ''10.0.0.2'') ''nproc'' () = ((''4'', None), ())"
    by code_simp
  have memRun: "runSSHCommand ?e (Client ''10.0.0.2'') memCommand () = ((noPattern, None), ())"
    by code_simp
  have absent: "findMemTotal noPattern = None" by code_simp
  have diskRun: "runSSHCommand ?e (Client ''10.0.0.2'') diskCommand () = ((''10G'', None), ())"
    by code_simp
  have cpu: "(4::int) = fst (Atoi (TrimSpace ''4''))" by code_simp
  have disk: "(10::int) = fst (Atoi (TrimSpace (TrimSuffix ''10G'' ''G'')))" by code_simp
  have "fmtInt 10 = ''10''" by code_simp
  then show ?thesis
    using memory_pattern_absent [OF conn cpuRun memRun absent diskRun cpu disk] absent by simp
qed

text \<open>
  C4, as the claim states it, fails: for a memory output without the pattern, 4 cores and
  50 GB of disk, the result of the host has passed, with the message
  \<^verbatim>\<open>System requirements met\<close>.
\<close>

theorem parse_failure_passes_counterexample:
  "findMemTotal noPattern = None \<and>
   Passed (fst (hostRequirements (scriptedEnv [] (capacityAnswers ''4'' noPattern ''50''))
      (NewChecker [''10.0.0.2''] ''root'' ''id_rsa'' 22) ''10.0.0.2'' ())) \<and>
   Message (fst (hostRequirements (scriptedEnv [] (capacityAnswers ''4'' noPattern ''50''))
      (NewChecker [''10.0.0.2''] ''root'' ''id_rsa'' 22) ''10.0.0.2'' ())) = ''System requirements met''"
  by code_simp

end
